theory Spec2Isabelle
  imports Main "HOL-Library.Word"
begin

section \<open>Values, exceptions and the outside world\<close>

text \<open>
  Python \<open>bytes\<close> are lists of 8-bit words and \<open>str\<close> values are HOL strings.
  A \<open>datetime\<close> is a naive UTC instant with microsecond resolution: it is modelled
  as an integer number of microseconds, so that \<open>timedelta(minutes=5)\<close> is
  \<open>5 * 60 * 1000000\<close>.
\<close>

type_synonym bytes = "8 word list"
type_synonym datetime = int

definition minutes :: "int \<Rightarrow> int" where
  "minutes n = n * 60 * 1000000"

definition seconds :: "int \<Rightarrow> int" where
  "seconds n = n * 1000000"

text \<open>
  Exceptions are values. \<open>OtherError cls msg\<close> stands for an exception of any other
  class (library errors such as \<open>InvalidToken\<close>, \<open>JSONDecodeError\<close> or
  \<open>BitwardenCLIError\<close>); \<open>binascii.Error\<close> is a subclass of \<open>ValueError\<close> and
  is represented by it. \<open>exn_str\<close> is Python's \<open>str(e)\<close>.
\<close>

datatype exn =
    ValueError string
  | RuntimeError string
  | KeyError string
  | AttributeError string
  | OtherError string string

fun exn_str :: "exn \<Rightarrow> string" where
  "exn_str (ValueError m) = m"
| "exn_str (RuntimeError m) = m"
| "exn_str (KeyError k) = [CHR 0x27] @ k @ [CHR 0x27]"
| "exn_str (AttributeError m) = m"
| "exn_str (OtherError c m) = m"

fun is_ValueError :: "exn \<Rightarrow> bool" where
  "is_ValueError (ValueError m) = True"
| "is_ValueError e = False"

text \<open>
  A value as \<open>json.loads\<close> returns it. A Python float is kept as its IEEE-754 bit
  pattern; a dict is an association list read with \<open>map_of\<close>.
\<close>

datatype json =
    JNull
  | JBool bool
  | JInt int
  | JFloat "64 word"
  | JStr string
  | JArr "json list"
  | JObj "(string \<times> json) list"

fun py_type_name :: "json \<Rightarrow> string" where
  "py_type_name JNull = ''NoneType''"
| "py_type_name (JBool b) = ''bool''"
| "py_type_name (JInt i) = ''int''"
| "py_type_name (JFloat f) = ''float''"
| "py_type_name (JStr s) = ''str''"
| "py_type_name (JArr xs) = ''list''"
| "py_type_name (JObj kvs) = ''dict''"

definition no_attribute :: "json \<Rightarrow> string \<Rightarrow> exn" where
  "no_attribute v a =
     AttributeError ([CHR 0x27] @ py_type_name v @ [CHR 0x27] @ '' object has no attribute ''
                     @ [CHR 0x27] @ a @ [CHR 0x27])"

text \<open>\<open>v.get(key, default)\<close>: only a dict has the method.\<close>

fun py_get :: "json \<Rightarrow> string \<Rightarrow> json \<Rightarrow> exn + json" where
  "py_get (JObj kvs) k d = Inr (case map_of kvs k of None \<Rightarrow> d | Some v \<Rightarrow> v)"
| "py_get v k d = Inl (no_attribute v ''get'')"

text \<open>Truthiness (\<open>not v\<close> is its negation) and the comparison \<open>v == 1\<close>.\<close>

fun truthy :: "json \<Rightarrow> bool" where
  "truthy JNull = False"
| "truthy (JBool b) = b"
| "truthy (JInt i) = (i \<noteq> 0)"
| "truthy (JFloat f) = (f \<noteq> 0 \<and> f \<noteq> 0x8000000000000000)"
| "truthy (JStr s) = (s \<noteq> [])"
| "truthy (JArr xs) = (xs \<noteq> [])"
| "truthy (JObj kvs) = (kvs \<noteq> [])"

fun eq_one :: "json \<Rightarrow> bool" where
  "eq_one (JBool b) = b"
| "eq_one (JInt i) = (i = 1)"
| "eq_one (JFloat f) = (f = 0x3FF0000000000000)"
| "eq_one v = False"

text \<open>\<open>s.rstrip('Z')\<close> removes every trailing \<open>Z\<close>.\<close>

definition rstrip_Z :: "string \<Rightarrow> string" where
  "rstrip_Z s = rev (dropWhile (\<lambda>c. c = CHR ''Z'') (rev s))"

text \<open>
  The world outside the process: the clock (one reading per call of
  \<open>datetime.utcnow()\<close>), the operating system's random source (one value per draw),
  the calls made to the vault driver and the pairing states passed to the user
  interface's \<open>on_pairing_created\<close>. Reading the clock or the random source
  advances it. \<open>PairingState\<close> is the dataclass of src/server/pairing_manager.py.
\<close>

datatype vault_call =
    Unlock string
  | ListItems json "string option"

record PairingState =
  agent_id :: string
  agent_name :: string
  pairing_code :: string
  created_at :: datetime
  expires_at :: datetime
  agent_pake_message :: "bytes option"
  user_entered :: bool
  bitwarden_session_token :: "string option"

record world =
  clock :: "nat \<Rightarrow> datetime"
  ticks :: nat
  entropy :: "nat \<Rightarrow> nat"
  drawn :: nat
  vault_log :: "vault_call list"
  notified :: "PairingState list"

definition utcnow :: "world \<Rightarrow> datetime \<times> world" where
  "utcnow w = (clock w (ticks w), w\<lparr>ticks := Suc (ticks w)\<rparr>)"

definition urandom :: "world \<Rightarrow> nat \<times> world" where
  "urandom w = (entropy w (drawn w), w\<lparr>drawn := Suc (drawn w)\<rparr>)"

text \<open>\<open>secrets.randbelow(n)\<close>: a value below \<open>n\<close>.\<close>

definition randbelow :: "nat \<Rightarrow> world \<Rightarrow> nat \<times> world" where
  "randbelow n w = (let (r, w') = urandom w in (r mod n, w'))"

text \<open>\<open>secrets.token_hex(n)\<close>: \<open>n\<close> random bytes, two lower-case hex digits each.\<close>

definition hex_digit :: "nat \<Rightarrow> char" where
  "hex_digit d = ''0123456789abcdef'' ! d"

definition hex_byte :: "8 word \<Rightarrow> string" where
  "hex_byte b = [hex_digit (unat b div 16), hex_digit (unat b mod 16)]"

definition token_bytes :: "nat \<Rightarrow> world \<Rightarrow> bytes \<times> world" where
  "token_bytes n w =
     (map (\<lambda>i. of_nat (entropy w (drawn w + i))) [0..<n], w\<lparr>drawn := drawn w + n\<rparr>)"

definition token_hex :: "nat \<Rightarrow> world \<Rightarrow> string \<times> world" where
  "token_hex n w = (let (bs, w') = token_bytes n w in (concat (map hex_byte bs), w'))"

text \<open>\<open>str(n)\<close> for a natural number: its decimal digits.\<close>

definition digit_char :: "nat \<Rightarrow> char" where
  "digit_char d = ''0123456789'' ! d"

function str_nat :: "nat \<Rightarrow> string" where
  "str_nat n = (if n < 10 then [digit_char n] else str_nat (n div 10) @ [digit_char (n mod 10)])"
  by pat_completeness auto
termination
  by (relation "measure id") auto

declare str_nat.simps [simp del]

text \<open>
  The libraries the program calls and the vault driver are parameters: SPAKE2
  (\<open>'sp\<close> is a SPAKE2 instance; \<open>start\<close> takes the randomness it draws and
  \<open>finish\<close> returns the instance as it leaves it), Fernet (\<open>'fk\<close> is a Fernet
  object; \<open>encrypt\<close> takes the randomness it draws), the UTF-8 and base64 codecs
  (\<open>b64encode_str\<close> is \<open>base64.b64encode(b).decode('utf-8')\<close>), JSON, ISO-8601
  dates, and the vault driver's \<open>unlock\<close> and \<open>list_items\<close> (each with the
  construction of the driver that precedes it). A library call that raises returns
  \<open>Inl\<close>. \<open>fromisoformat\<close> gives a naive instant: a string with a UTC offset,
  whose aware result cannot be subtracted from \<open>utcnow()\<close>, counts as rejected.
\<close>

record ('sp, 'fk) env =
  SPAKE2_A :: "bytes \<Rightarrow> 'sp"
  SPAKE2_B :: "bytes \<Rightarrow> 'sp"
  spake_start :: "'sp \<Rightarrow> nat \<Rightarrow> bytes \<times> 'sp"
  spake_finish :: "'sp \<Rightarrow> bytes \<Rightarrow> (exn + bytes) \<times> 'sp"
  Fernet :: "bytes \<Rightarrow> exn + 'fk"
  fernet_encrypt :: "'fk \<Rightarrow> nat \<Rightarrow> bytes \<Rightarrow> bytes"
  fernet_decrypt :: "'fk \<Rightarrow> bytes \<Rightarrow> exn + bytes"
  str_encode :: "string \<Rightarrow> bytes"
  bytes_decode :: "bytes \<Rightarrow> exn + string"
  b64encode_str :: "bytes \<Rightarrow> string"
  b64decode :: "string \<Rightarrow> exn + bytes"
  urlsafe_b64encode :: "bytes \<Rightarrow> bytes"
  json_loads :: "string \<Rightarrow> exn + json"
  json_dumps :: "json \<Rightarrow> string"
  py_repr :: "json \<Rightarrow> string"
  fromisoformat :: "string \<Rightarrow> exn + datetime"
  isoformat :: "datetime \<Rightarrow> string"
  bw_unlock :: "world \<Rightarrow> string \<Rightarrow> exn + string"
  bw_list_items :: "world \<Rightarrow> json \<Rightarrow> string option \<Rightarrow> exn + json list"

text \<open>A value inside an f-string: a \<open>str\<close> is itself, anything else is formatted by the interpreter.\<close>

definition py_format :: "('sp, 'fk) env \<Rightarrow> json \<Rightarrow> string" where
  "py_format E v = (case v of JStr s \<Rightarrow> s | _ \<Rightarrow> py_repr E v)"

section \<open>The PAKE handler (src/sdk/pake_handler.py)\<close>

record ('sp, 'fk) PAKEHandler =
  role :: string
  spake_instance :: "'sp option"
  shared_key :: "bytes option"
  fernet :: "'fk option"

definition PAKEHandler_init :: "string \<Rightarrow> exn + ('sp, 'fk) PAKEHandler" where
  "PAKEHandler_init r =
     (if r \<noteq> ''client'' \<and> r \<noteq> ''server''
      then Inl (ValueError (''Role must be 'client' or 'server', got: '' @ r))
      else Inr \<lparr>role = r, spake_instance = None, shared_key = None, fernet = None\<rparr>)"

definition start_exchange ::
  "('sp, 'fk) env \<Rightarrow> string \<Rightarrow> ('sp, 'fk) PAKEHandler \<times> world
     \<Rightarrow> (exn + bytes) \<times> ('sp, 'fk) PAKEHandler \<times> world" where
  "start_exchange E password hw =
     (case hw of (h, w) \<Rightarrow>
        if spake_instance h \<noteq> None
        then (Inl (RuntimeError ''PAKE exchange already started''), h, w)
        else
          let password_bytes = str_encode E password;
              inst = (if role h = ''client'' then SPAKE2_A E password_bytes
                      else SPAKE2_B E password_bytes);
              (seed, w') = urandom w;
              (msg_out, inst') = spake_start E inst seed
          in (Inr msg_out, h\<lparr>spake_instance := Some inst'\<rparr>, w'))"

definition pake_failed :: "exn \<Rightarrow> exn" where
  "pake_failed e =
     ValueError (''PAKE exchange failed (wrong password or invalid message): '' @ exn_str e)"

definition finish_exchange ::
  "('sp, 'fk) env \<Rightarrow> bytes \<Rightarrow> ('sp, 'fk) PAKEHandler
     \<Rightarrow> (exn + unit) \<times> ('sp, 'fk) PAKEHandler" where
  "finish_exchange E msg_in h =
     (case spake_instance h of
        None \<Rightarrow> (Inl (RuntimeError ''Must call start_exchange() first''), h)
      | Some inst \<Rightarrow>
          if shared_key h \<noteq> None
          then (Inl (RuntimeError ''PAKE exchange already completed''), h)
          else
            (case spake_finish E inst msg_in of
               (Inl e, inst') \<Rightarrow> (Inl (pake_failed e), h\<lparr>spake_instance := Some inst'\<rparr>)
             | (Inr key, inst') \<Rightarrow>
                 let h1 = h\<lparr>spake_instance := Some inst', shared_key := Some key\<rparr>;
                     key_bytes = take 32 key;
                     fernet_key = urlsafe_b64encode E key_bytes
                 in (case Fernet E fernet_key of
                       Inl e \<Rightarrow> (Inl (pake_failed e), h1)
                     | Inr f \<Rightarrow> (Inr (), h1\<lparr>fernet := Some f\<rparr>))))"

definition encrypt ::
  "('sp, 'fk) env \<Rightarrow> string \<Rightarrow> ('sp, 'fk) PAKEHandler \<times> world \<Rightarrow> (exn + string) \<times> world" where
  "encrypt E plaintext hw =
     (case hw of (h, w) \<Rightarrow>
        (case fernet h of
           None \<Rightarrow>
             (Inl (RuntimeError ''PAKE exchange not completed - call finish_exchange() first''), w)
         | Some f \<Rightarrow>
             let plaintext_bytes = str_encode E plaintext;
                 (seed, w') = urandom w;
                 encrypted = fernet_encrypt E f seed plaintext_bytes;
                 encrypted_b64 = b64encode_str E encrypted
             in (Inr encrypted_b64, w')))"

definition decryption_failed :: "exn \<Rightarrow> exn" where
  "decryption_failed e =
     ValueError (''Decryption failed (wrong key or tampered data): '' @ exn_str e)"

definition decrypt ::
  "('sp, 'fk) env \<Rightarrow> string \<Rightarrow> ('sp, 'fk) PAKEHandler \<Rightarrow> exn + string" where
  "decrypt E ciphertext h =
     (case fernet h of
        None \<Rightarrow> Inl (RuntimeError ''PAKE exchange not completed - call finish_exchange() first'')
      | Some f \<Rightarrow>
          (case b64decode E ciphertext of
             Inl e \<Rightarrow> Inl (decryption_failed e)
           | Inr encrypted \<Rightarrow>
               (case fernet_decrypt E f encrypted of
                  Inl e \<Rightarrow> Inl (decryption_failed e)
                | Inr plaintext_bytes \<Rightarrow>
                    (case bytes_decode E plaintext_bytes of
                       Inl e \<Rightarrow> Inl (decryption_failed e)
                     | Inr plaintext \<Rightarrow> Inr plaintext))))"

definition is_ready :: "('sp, 'fk) PAKEHandler \<Rightarrow> bool" where
  "is_ready h = (fernet h \<noteq> None)"

section \<open>The pairing manager (src/server/pairing_manager.py)\<close>

record ('sp, 'fk) Session =
  session_id :: string
  sess_agent_id :: string
  sess_agent_name :: string
  pake_handler :: "('sp, 'fk) PAKEHandler"
  sess_bitwarden_session_token :: "string option"
  sess_created_at :: datetime
  last_access :: datetime
  sess_expires_at :: datetime

text \<open>
  The dict a user-interface callback returns from \<open>handle_credential_request\<close>:
  \<open>result['approved']\<close> and \<open>result.get('error')\<close>.
\<close>

record approval =
  approved :: bool
  approval_error :: "string option"

record ('sp, 'fk) PairingManager =
  pending_pairings :: "string \<rightharpoonup> PairingState"
  active_sessions :: "string \<rightharpoonup> ('sp, 'fk) Session"
  callback_handler :: "(('sp, 'fk) Session \<Rightarrow> json \<Rightarrow> json \<Rightarrow> approval) option"

text \<open>The dicts the manager returns, by their \<open>status\<close>.\<close>

datatype result =
    Status_waiting
  | Status_success string string string
  | Status_error string
  | Status_approved string
  | Status_denied string

definition PairingManager_init :: "('sp, 'fk) PairingManager" where
  "PairingManager_init =
     \<lparr>pending_pairings = Map.empty, active_sessions = Map.empty, callback_handler = None\<rparr>"

definition set_callback_handler ::
  "(('sp, 'fk) Session \<Rightarrow> json \<Rightarrow> json \<Rightarrow> approval) \<Rightarrow> ('sp, 'fk) PairingManager
     \<Rightarrow> ('sp, 'fk) PairingManager" where
  "set_callback_handler handler m = m\<lparr>callback_handler := Some handler\<rparr>"

definition create_pairing ::
  "string \<Rightarrow> string \<Rightarrow> ('sp, 'fk) PairingManager \<times> world
     \<Rightarrow> (string \<times> datetime) \<times> ('sp, 'fk) PairingManager \<times> world" where
  "create_pairing aid aname mw =
     (case mw of (m, w) \<Rightarrow>
        let (r, w1) = randbelow 900000 w;
            code = str_nat (r + 100000);
            (now, w2) = utcnow w1;
            expires = now + minutes 5;
            pairing_state =
              \<lparr>agent_id = aid, agent_name = aname, pairing_code = code, created_at = now,
               expires_at = expires, agent_pake_message = None, user_entered = False,
               bitwarden_session_token = None\<rparr>;
            m1 = m\<lparr>pending_pairings := (pending_pairings m)(code \<mapsto> pairing_state)\<rparr>;
            w3 = (if callback_handler m1 \<noteq> None
                  then w2\<lparr>notified := notified w2 @ [pairing_state]\<rparr> else w2)
        in ((code, expires), m1, w3))"

definition cli_unlock ::
  "('sp, 'fk) env \<Rightarrow> string \<Rightarrow> world \<Rightarrow> (exn + string) \<times> world" where
  "cli_unlock E password w =
     (bw_unlock E w password, w\<lparr>vault_log := vault_log w @ [Unlock password]\<rparr>)"

definition cli_list_items ::
  "('sp, 'fk) env \<Rightarrow> json \<Rightarrow> string option \<Rightarrow> world \<Rightarrow> (exn + json list) \<times> world" where
  "cli_list_items E search session_key w =
     (bw_list_items E w search session_key,
      w\<lparr>vault_log := vault_log w @ [ListItems search session_key]\<rparr>)"

definition mark_user_entered_code ::
  "('sp, 'fk) env \<Rightarrow> string \<Rightarrow> string \<Rightarrow> ('sp, 'fk) PairingManager \<times> world
     \<Rightarrow> bool \<times> ('sp, 'fk) PairingManager \<times> world" where
  "mark_user_entered_code E code master_password mw =
     (case mw of (m, w) \<Rightarrow>
        (case pending_pairings m code of
           None \<Rightarrow> (False, m, w)
         | Some pairing \<Rightarrow>
             let (now, w1) = utcnow w in
             if now > expires_at pairing
             then (False, m\<lparr>pending_pairings := (pending_pairings m)(code := None)\<rparr>, w1)
             else
               (case cli_unlock E master_password w1 of
                  (Inr session_token, w2) \<Rightarrow>
                    (True,
                     m\<lparr>pending_pairings := (pending_pairings m)(code \<mapsto>
                          pairing\<lparr>bitwarden_session_token := Some session_token,
                                  user_entered := True\<rparr>)\<rparr>,
                     w2)
                | (Inl e, w2) \<Rightarrow> (False, m, w2))))"

definition exchange_pake_message ::
  "('sp, 'fk) env \<Rightarrow> string \<Rightarrow> string \<Rightarrow> ('sp, 'fk) PairingManager \<times> world
     \<Rightarrow> (exn + result) \<times> ('sp, 'fk) PairingManager \<times> world" where
  "exchange_pake_message E code msg_in_a mw =
     (case mw of (m, w) \<Rightarrow>
        (case pending_pairings m code of
           None \<Rightarrow> (Inr (Status_error ''Invalid pairing code''), m, w)
         | Some pairing0 \<Rightarrow>
             let (now0, w1) = utcnow w in
             if now0 > expires_at pairing0
             then (Inr (Status_error ''Pairing code expired''),
                   m\<lparr>pending_pairings := (pending_pairings m)(code := None)\<rparr>, w1)
             else
               (case b64decode E msg_in_a of
                  Inl e \<Rightarrow> (Inl e, m, w1)
                | Inr msg \<Rightarrow>
                    let pairing = pairing0\<lparr>agent_pake_message := Some msg\<rparr>;
                        m1 = m\<lparr>pending_pairings := (pending_pairings m)(code \<mapsto> pairing)\<rparr>
                    in
                    if \<not> user_entered pairing then (Inr Status_waiting, m1, w1)
                    else
                      (case PAKEHandler_init ''server'' of
                         Inl e \<Rightarrow> (Inl e, m1, w1)
                       | Inr h0 \<Rightarrow>
                           (case start_exchange E code (h0, w1) of
                              (Inl e, h1, w2) \<Rightarrow> (Inl e, m1, w2)
                            | (Inr msg_out_b, h1, w2) \<Rightarrow>
                                (case finish_exchange E msg h1 of
                                   (Inl e, h2) \<Rightarrow>
                                     if is_ValueError e
                                     then (Inr (Status_error ''PAKE exchange failed''), m1, w2)
                                     else (Inl e, m1, w2)
                                 | (Inr u, h2) \<Rightarrow>
                                     let (tok, w3) = token_hex 16 w2;
                                         sid = ''sess_'' @ tok;
                                         (now, w4) = utcnow w3;
                                         session =
                                           \<lparr>session_id = sid,
                                            sess_agent_id = agent_id pairing,
                                            sess_agent_name = agent_name pairing,
                                            pake_handler = h2,
                                            sess_bitwarden_session_token =
                                              bitwarden_session_token pairing,
                                            sess_created_at = now,
                                            last_access = now,
                                            sess_expires_at = now + minutes 30\<rparr>;
                                         m2 = m1\<lparr>active_sessions :=
                                                  (active_sessions m1)(sid \<mapsto> session)\<rparr>;
                                         m3 = m2\<lparr>pending_pairings :=
                                                  (pending_pairings m2)(code := None)\<rparr>
                                     in (Inr (Status_success sid (b64encode_str E msg_out_b)
                                                (agent_id pairing)), m3, w4)))))))"

text \<open>
  The \<open>try\<close> block of \<open>handle_credential_request\<close> (lines 313 to 319): decrypt,
  parse, and call \<open>request_data.get('domain')\<close> for the log line, which only a dict
  supports. Any exception there gives "Decryption failed".
\<close>

fun as_dict :: "json \<Rightarrow> exn + (string \<times> json) list" where
  "as_dict (JObj kvs) = Inr kvs"
| "as_dict v = Inl (no_attribute v ''get'')"

definition decrypt_request ::
  "('sp, 'fk) env \<Rightarrow> ('sp, 'fk) PAKEHandler \<Rightarrow> string \<Rightarrow> exn + (string \<times> json) list" where
  "decrypt_request E h encrypted_payload =
     (case decrypt E encrypted_payload h of
        Inl e \<Rightarrow> Inl e
      | Inr plaintext \<Rightarrow>
          (case json_loads E plaintext of
             Inl e \<Rightarrow> Inl e
           | Inr request_data \<Rightarrow> as_dict request_data))"

text \<open>\<open>request_data[key]\<close> on a dict, and \<open>v.rstrip('Z')\<close>, which only a \<open>str\<close> has.\<close>

definition subscript :: "(string \<times> json) list \<Rightarrow> string \<Rightarrow> exn + json" where
  "subscript d k = (case map_of d k of None \<Rightarrow> Inl (KeyError k) | Some v \<Rightarrow> Inr v)"

fun py_rstrip_Z :: "json \<Rightarrow> exn + string" where
  "py_rstrip_Z (JStr s) = Inr (rstrip_Z s)"
| "py_rstrip_Z v = Inl (no_attribute v ''rstrip'')"

text \<open>
  \<open>next((item for item in items if item.get("type") == 1), None)\<close>: the first item
  whose type is 1; an item that is not a dict raises on the way.
\<close>

fun find_login :: "json list \<Rightarrow> exn + json option" where
  "find_login [] = Inr None"
| "find_login (item # items) =
     (case py_get item ''type'' JNull of
        Inl e \<Rightarrow> Inl e
      | Inr t \<Rightarrow> if eq_one t then Inr (Some item) else find_login items)"

definition vault_access_failed :: "exn \<Rightarrow> result" where
  "vault_access_failed e = Status_error (''Vault access failed: '' @ exn_str e)"

text \<open>
  The approved branch (lines 337 to 394): every exception inside it becomes
  "Vault access failed".
\<close>

definition retrieve_credential ::
  "('sp, 'fk) env \<Rightarrow> ('sp, 'fk) Session \<Rightarrow> json \<Rightarrow> world \<Rightarrow> result \<times> world" where
  "retrieve_credential E session domain w =
     (case cli_list_items E domain (sess_bitwarden_session_token session) w of
        (Inl e, w1) \<Rightarrow> (vault_access_failed e, w1)
      | (Inr items, w1) \<Rightarrow>
          (case find_login items of
             Inl e \<Rightarrow> (vault_access_failed e, w1)
           | Inr None \<Rightarrow> (Status_error (''No credential found for '' @ py_format E domain), w1)
           | Inr (Some login_item) \<Rightarrow>
               if \<not> truthy login_item
               then (Status_error (''No credential found for '' @ py_format E domain), w1)
               else
                 (case py_get login_item ''login'' (JObj []) of
                    Inl e \<Rightarrow> (vault_access_failed e, w1)
                  | Inr login \<Rightarrow>
                      (case py_get login ''username'' JNull of
                         Inl e \<Rightarrow> (vault_access_failed e, w1)
                       | Inr username \<Rightarrow>
                           (case py_get login ''password'' JNull of
                              Inl e \<Rightarrow> (vault_access_failed e, w1)
                            | Inr password \<Rightarrow>
                                if \<not> truthy username \<or> \<not> truthy password
                                then (Status_error
                                        ''Incomplete credential (missing username or password)'',
                                      w1)
                                else
                                  let (now, w2) = utcnow w1;
                                      (nonce, w3) = token_hex 8 w2;
                                      cred_payload =
                                        JObj [(''username'', username),
                                              (''password'', password),
                                              (''timestamp'', JStr (isoformat E now @ ''Z'')),
                                              (''nonce'', JStr nonce)]
                                  in (case encrypt E (json_dumps E cred_payload)
                                             (pake_handler session, w3) of
                                        (Inl e, w4) \<Rightarrow> (vault_access_failed e, w4)
                                      | (Inr encrypted_cred, w4) \<Rightarrow>
                                          (Status_approved encrypted_cred, w4)))))))"

text \<open>
  Lines 321 to 403: the timestamp check, then the callback. \<open>total_seconds()\<close> is
  the difference in microseconds divided by \<open>10^6\<close>, so \<open>age > 300\<close> is the
  comparison of the difference with 300 seconds.
\<close>

definition answer_request ::
  "('sp, 'fk) env \<Rightarrow> (('sp, 'fk) Session \<Rightarrow> json \<Rightarrow> json \<Rightarrow> approval) option
     \<Rightarrow> ('sp, 'fk) Session \<Rightarrow> (string \<times> json) list \<Rightarrow> world \<Rightarrow> (exn + result) \<times> world" where
  "answer_request E cb session request_data w =
     (case subscript request_data ''timestamp'' of
        Inl e \<Rightarrow> (Inl e, w)
      | Inr tsv \<Rightarrow>
          (case py_rstrip_Z tsv of
             Inl e \<Rightarrow> (Inl e, w)
           | Inr ts \<Rightarrow>
               (case fromisoformat E ts of
                  Inl e \<Rightarrow> (Inl e, w)
                | Inr timestamp \<Rightarrow>
                    let (now, w1) = utcnow w;
                        age = now - timestamp
                    in
                    if age > seconds 300
                    then (Inr (Status_error ''Request too old (possible replay attack)''), w1)
                    else
                      (case cb of
                         None \<Rightarrow> (Inr (Status_error ''No approval handler registered''), w1)
                       | Some handler \<Rightarrow>
                           (case subscript request_data ''domain'' of
                              Inl e \<Rightarrow> (Inl e, w1)
                            | Inr domain \<Rightarrow>
                                (case subscript request_data ''reason'' of
                                   Inl e \<Rightarrow> (Inl e, w1)
                                 | Inr reason \<Rightarrow>
                                     let res = handler session domain reason in
                                     if approved res
                                     then (case retrieve_credential E session domain w1 of
                                             (r, w2) \<Rightarrow> (Inr r, w2))
                                     else (Inr (Status_denied
                                                  (case approval_error res of
                                                     None \<Rightarrow> ''User denied''
                                                   | Some e \<Rightarrow> e)), w1)))))))"

definition handle_credential_request ::
  "('sp, 'fk) env \<Rightarrow> string \<Rightarrow> string \<Rightarrow> ('sp, 'fk) PairingManager \<times> world
     \<Rightarrow> (exn + result) \<times> ('sp, 'fk) PairingManager \<times> world" where
  "handle_credential_request E sid encrypted_payload mw =
     (case mw of (m, w) \<Rightarrow>
        (case active_sessions m sid of
           None \<Rightarrow> (Inr (Status_error ''Invalid or expired session''), m, w)
         | Some session0 \<Rightarrow>
             let (now1, w1) = utcnow w;
                 session = session0\<lparr>last_access := now1\<rparr>;
                 m1 = m\<lparr>active_sessions := (active_sessions m)(sid \<mapsto> session)\<rparr>;
                 (now2, w2) = utcnow w1
             in
             if now2 > sess_expires_at session
             then (Inr (Status_error ''Session expired''),
                   m1\<lparr>active_sessions := (active_sessions m1)(sid := None)\<rparr>, w2)
             else
               (case decrypt_request E (pake_handler session) encrypted_payload of
                  Inl e \<Rightarrow> (Inr (Status_error ''Decryption failed''), m1, w2)
                | Inr request_data \<Rightarrow>
                    (case answer_request E (callback_handler m1) session request_data w2 of
                       (r, w3) \<Rightarrow> (r, m1, w3)))))"

text \<open>\<open>get_session_status\<close> returns the snapshot, or \<open>None\<close> when the id is not in the table.\<close>

record session_status =
  active :: bool
  status_agent_name :: string
  status_last_access :: string
  status_expires_at :: string

definition get_session_status ::
  "('sp, 'fk) env \<Rightarrow> string \<Rightarrow> ('sp, 'fk) PairingManager \<Rightarrow> session_status option" where
  "get_session_status E sid m =
     (case active_sessions m sid of
        None \<Rightarrow> None
      | Some session \<Rightarrow>
          Some \<lparr>active = True,
                status_agent_name = sess_agent_name session,
                status_last_access = isoformat E (last_access session) @ ''Z'',
                status_expires_at = isoformat E (sess_expires_at session) @ ''Z''\<rparr>)"

text \<open>
  What the round trip of \<open>encrypt\<close> and \<open>decrypt\<close> needs from the libraries:
  decoding inverts encoding for UTF-8 and for base64, and Fernet decrypts under a key
  what it encrypted under it.
\<close>

definition codecs_round_trip :: "('sp, 'fk) env \<Rightarrow> bool" where
  "codecs_round_trip E \<longleftrightarrow>
     (\<forall>x. bytes_decode E (str_encode E x) = Inr x) \<and>
     (\<forall>b. b64decode E (b64encode_str E b) = Inr b) \<and>
     (\<forall>f seed b. fernet_decrypt E f (fernet_encrypt E f seed b) = Inr b)"

section \<open>A small instance of the libraries and of the manager\<close>

text \<open>
  A concrete environment on which the definitions can be evaluated: a SPAKE2 stand-in
  that checks the length and the side byte of the peer's message, a Fernet stand-in
  that prepends its nonce, codecs that map characters to bytes one to one, a JSON
  reader that knows a handful of documents, and a vault with one login item.
\<close>

definition byte_of_char :: "char \<Rightarrow> 8 word" where
  "byte_of_char c = of_nat (of_char c)"

definition char_of_byte :: "8 word \<Rightarrow> char" where
  "char_of_byte b = char_of (unat b)"

definition toy_env :: "(bytes, bytes) env" where
  "toy_env =
     \<lparr>SPAKE2_A = (\<lambda>pw. 0x41 # pw),
      SPAKE2_B = (\<lambda>pw. 0x42 # pw),
      spake_start = (\<lambda>inst seed. (take 1 inst @ [of_nat seed], inst)),
      spake_finish = (\<lambda>inst msg.
         (if length msg \<noteq> 2 then Inl (OtherError ''AssertionError'' ''bad length'')
          else if take 1 msg = take 1 inst then Inl (OtherError ''OffSides'' ''wrong side'')
          else Inr (replicate 32 7), inst)),
      Fernet = (\<lambda>k. if length k = 32 then Inr k else Inl (ValueError ''bad key'')),
      fernet_encrypt = (\<lambda>k seed b. of_nat seed # b),
      fernet_decrypt = (\<lambda>k tok. case tok of [] \<Rightarrow> Inl (OtherError ''InvalidToken'' [])
                                   | x # b \<Rightarrow> Inr b),
      str_encode = map byte_of_char,
      bytes_decode = (\<lambda>b. Inr (map char_of_byte b)),
      b64encode_str = (\<lambda>b. CHR ''='' # map char_of_byte b),
      b64decode = (\<lambda>s. case s of [] \<Rightarrow> Inl (ValueError ''Incorrect padding'')
                         | c # cs \<Rightarrow> if c = CHR ''='' then Inr (map byte_of_char cs)
                                     else Inl (ValueError ''Incorrect padding'')),
      urlsafe_b64encode = id,
      json_loads = (\<lambda>s.
         if s = ''{}'' then Inr (JObj [])
         else if s = ''[]'' then Inr (JArr [])
         else if s = ''now'' \<or> s = ''future'' \<or> s = ''old''
           then Inr (JObj [(''domain'', JStr ''example.com''), (''reason'', JStr ''login''),
                           (''agent_id'', JStr ''a1''), (''agent_name'', JStr ''A1''),
                           (''timestamp'', JStr (s @ ''Z'')), (''nonce'', JStr ''00ff00ff00ff00ff'')])
         else if s = ''bare''
           then Inr (JObj [(''domain'', JStr ''example.com''), (''reason'', JStr ''login''),
                           (''timestamp'', JStr ''nowZ'')])
         else Inl (OtherError ''JSONDecodeError'' ''Expecting value'')),
      json_dumps = (\<lambda>v. ''cred''),
      py_repr = (\<lambda>v. ''?''),
      fromisoformat = (\<lambda>s.
         if s = ''now'' then Inr 1000000000
         else if s = ''future'' then Inr 1600000000
         else if s = ''old'' then Inr 400000000
         else Inl (ValueError ''Invalid isoformat string'')),
      isoformat = (\<lambda>t. ''t''),
      bw_unlock = (\<lambda>w pw. if pw = ''pw'' then Inr ''T''
                            else Inl (OtherError ''BitwardenCLIError'' ''Invalid master password'')),
      bw_list_items = (\<lambda>w d tok.
         Inr [JObj [(''type'', JInt 1),
                    (''login'', JObj [(''username'', JStr ''u''), (''password'', JStr ''p'')])]])\<rparr>"

definition toy_world :: world where
  "toy_world = \<lparr>clock = (\<lambda>n. 1000000000 + int n), ticks = 0, entropy = (\<lambda>n. 56 + n), drawn = 0,
                 vault_log = [], notified = []\<rparr>"

definition toy_new :: "(bytes, bytes) PAKEHandler" where
  "toy_new = \<lparr>role = ''server'', spake_instance = None, shared_key = None, fernet = None\<rparr>"

definition toy_started :: "(bytes, bytes) PAKEHandler" where
  "toy_started = fst (snd (start_exchange toy_env ''100056'' (toy_new, toy_world)))"

definition toy_ready :: "(bytes, bytes) PAKEHandler" where
  "toy_ready = snd (finish_exchange toy_env [0x41, 9] toy_started)"

definition toy_session :: "(bytes, bytes) Session" where
  "toy_session =
     \<lparr>session_id = ''sess_x'', sess_agent_id = ''a1'', sess_agent_name = ''A1'',
      pake_handler = toy_ready, sess_bitwarden_session_token = Some ''T'',
      sess_created_at = 900000000, last_access = 900000000,
      sess_expires_at = 2700000000\<rparr>"

definition toy_manager :: "(bytes, bytes) PairingManager" where
  "toy_manager =
     \<lparr>pending_pairings = Map.empty, active_sessions = [''sess_x'' \<mapsto> toy_session],
      callback_handler = None\<rparr>"

definition toy_payload :: "string \<Rightarrow> string" where
  "toy_payload s = CHR ''='' # CHR ''k'' # s"

definition approve_all :: "(bytes, bytes) Session \<Rightarrow> json \<Rightarrow> json \<Rightarrow> approval" where
  "approve_all session domain reason = \<lparr>approved = True, approval_error = None\<rparr>"

definition toy_expired_manager :: "(bytes, bytes) PairingManager" where
  "toy_expired_manager =
     \<lparr>pending_pairings = Map.empty,
      active_sessions = [''sess_x'' \<mapsto> toy_session\<lparr>sess_expires_at := 950000000\<rparr>],
      callback_handler = None\<rparr>"

definition toy_approving_manager :: "(bytes, bytes) PairingManager" where
  "toy_approving_manager = set_callback_handler approve_all toy_manager"

definition toy_pairing :: PairingState where
  "toy_pairing =
     \<lparr>agent_id = ''a1'', agent_name = ''A1'', pairing_code = ''100056'',
      created_at = 900000000, expires_at = 1200000000, agent_pake_message = None,
      user_entered = False, bitwarden_session_token = None\<rparr>"

definition toy_pending_manager :: "(bytes, bytes) PairingManager" where
  "toy_pending_manager =
     \<lparr>pending_pairings = [''100056'' \<mapsto> toy_pairing], active_sessions = Map.empty,
      callback_handler = None\<rparr>"

definition toy_unlocked_manager :: "(bytes, bytes) PairingManager" where
  "toy_unlocked_manager =
     \<lparr>pending_pairings =
        [''100056'' \<mapsto> toy_pairing\<lparr>user_entered := True, bitwarden_session_token := Some ''T''\<rparr>],
      active_sessions = Map.empty, callback_handler = None\<rparr>"

section \<open>Properties of the toy instance\<close>

lemma char_of_byte_of_char: "char_of_byte (byte_of_char c) = c"
  by (simp add: char_of_byte_def byte_of_char_def unat_of_nat)

lemma byte_of_char_of_byte: "byte_of_char (char_of_byte b) = b"
proof -
  have "unat b < 256" using unsigned_less [of b] by simp
  then show ?thesis by (simp add: char_of_byte_def byte_of_char_def)
qed

lemmas toy_defs = toy_env_def toy_world_def toy_new_def toy_started_def toy_ready_def

lemma toy_started_eq:
  "toy_started = \<lparr>role = ''server'', spake_instance = Some (0x42 # map byte_of_char ''100056''),
                  shared_key = None, fernet = None\<rparr>"
  by (simp add: toy_defs start_exchange_def urandom_def)

lemma toy_ready_eq:
  "toy_ready = \<lparr>role = ''server'', spake_instance = Some (0x42 # map byte_of_char ''100056''),
                  shared_key = Some (replicate 32 7), fernet = Some (replicate 32 7)\<rparr>"
  by (simp add: toy_ready_def toy_started_eq finish_exchange_def toy_env_def)

lemma toy_round_trip: "codecs_round_trip toy_env"
  by (simp add: codecs_round_trip_def toy_env_def char_of_byte_of_char byte_of_char_of_byte
                comp_def)

lemma toy_decrypt: "decrypt toy_env (toy_payload s) toy_ready = Inr s"
  by (simp add: decrypt_def toy_ready_eq toy_env_def toy_payload_def char_of_byte_of_char comp_def)

lemma toy_session_live:
  "active_sessions toy_manager ''sess_x'' = Some toy_session \<and>
   \<not> clock toy_world (Suc (ticks toy_world)) > sess_expires_at toy_session \<and>
   pake_handler toy_session = toy_ready"
  by (simp add: toy_manager_def toy_session_def toy_world_def)

lemma toy_json_loads:
  "json_loads toy_env ''future'' =
     Inr (JObj [(''domain'', JStr ''example.com''), (''reason'', JStr ''login''),
                (''agent_id'', JStr ''a1''), (''agent_name'', JStr ''A1''),
                (''timestamp'', JStr ''futureZ''), (''nonce'', JStr ''00ff00ff00ff00ff'')])"
  "json_loads toy_env ''old'' =
     Inr (JObj [(''domain'', JStr ''example.com''), (''reason'', JStr ''login''),
                (''agent_id'', JStr ''a1''), (''agent_name'', JStr ''A1''),
                (''timestamp'', JStr ''oldZ''), (''nonce'', JStr ''00ff00ff00ff00ff'')])"
  "json_loads toy_env ''now'' =
     Inr (JObj [(''domain'', JStr ''example.com''), (''reason'', JStr ''login''),
                (''agent_id'', JStr ''a1''), (''agent_name'', JStr ''A1''),
                (''timestamp'', JStr ''nowZ''), (''nonce'', JStr ''00ff00ff00ff00ff'')])"
  "json_loads toy_env ''bare'' =
     Inr (JObj [(''domain'', JStr ''example.com''), (''reason'', JStr ''login''),
                (''timestamp'', JStr ''nowZ'')])"
  "json_loads toy_env ''{}'' = Inr (JObj [])"
  "json_loads toy_env ''[]'' = Inr (JArr [])"
  by (simp_all add: toy_env_def)

lemma toy_fromisoformat:
  "fromisoformat toy_env (rstrip_Z ''futureZ'') = Inr 1600000000"
  "fromisoformat toy_env (rstrip_Z ''oldZ'') = Inr 400000000"
  "fromisoformat toy_env (rstrip_Z ''nowZ'') = Inr 1000000000"
  by (simp_all add: toy_env_def rstrip_Z_def)

section \<open>The PAKE handler: state machine and round trip\<close>

lemma started_after_start:
  "spake_instance (fst (snd (start_exchange E p (h, w)))) \<noteq> None"
  by (auto simp: start_exchange_def Let_def split: prod.splits)

lemma start_twice:
  "fst (start_exchange E p2 (snd (start_exchange E p1 (h, w)))) =
     Inl (RuntimeError ''PAKE exchange already started'')"
proof -
  obtain r h1 w1 where s: "start_exchange E p1 (h, w) = (r, h1, w1)"
    by (cases "start_exchange E p1 (h, w)") auto
  have "spake_instance h1 \<noteq> None"
    using started_after_start [of E p1 h w] by (simp add: s)
  then have "start_exchange E p2 (h1, w1) =
      (Inl (RuntimeError ''PAKE exchange already started''), h1, w1)"
    by (simp add: start_exchange_def)
  then show ?thesis
    by (simp add: s)
qed

lemma finish_before_start:
  "spake_instance h = None \<Longrightarrow>
     fst (finish_exchange E msg h) = Inl (RuntimeError ''Must call start_exchange() first'')"
  by (simp add: finish_exchange_def)

lemma finish_twice:
  "fst (finish_exchange E msg h) = Inr u \<Longrightarrow>
     fst (finish_exchange E msg' (snd (finish_exchange E msg h))) =
       Inl (RuntimeError ''PAKE exchange already completed'')"
  by (auto simp: finish_exchange_def Let_def split: option.splits if_splits prod.splits sum.splits)

lemma not_ready_encrypt:
  "\<not> is_ready h \<Longrightarrow>
     fst (encrypt E x (h, w)) =
       Inl (RuntimeError ''PAKE exchange not completed - call finish_exchange() first'')"
  by (simp add: is_ready_def encrypt_def)

lemma not_ready_decrypt:
  "\<not> is_ready h \<Longrightarrow>
     decrypt E c h =
       Inl (RuntimeError ''PAKE exchange not completed - call finish_exchange() first'')"
  by (simp add: is_ready_def decrypt_def)

lemma init_not_ready:
  "PAKEHandler_init r = Inr h \<Longrightarrow> spake_instance h = None \<and> \<not> is_ready h"
  by (auto simp: PAKEHandler_init_def is_ready_def split: if_splits)

lemma start_not_ready:
  "\<not> is_ready h \<Longrightarrow> \<not> is_ready (fst (snd (start_exchange E p (h, w))))"
  by (simp add: start_exchange_def is_ready_def Let_def split: prod.splits)

lemma failed_finish_not_ready:
  "\<not> is_ready h \<Longrightarrow> fst (finish_exchange E msg h) = Inl e \<Longrightarrow>
     \<not> is_ready (snd (finish_exchange E msg h))"
  by (auto simp: finish_exchange_def is_ready_def Let_def
           split: option.splits if_splits prod.splits sum.splits)

text \<open>
  C8. Operations outside the order new, started, ready raise a state error
  (\<open>RuntimeError\<close>): \<open>start_exchange\<close> after any earlier call of it;
  \<open>finish_exchange\<close> on a handler that was never started; \<open>finish_exchange\<close>
  after a call of it that completed; \<open>encrypt\<close> and \<open>decrypt\<close> on a handler that
  is not ready. A handler is not ready when it is constructed, stays so through
  \<open>start_exchange\<close> and through a \<open>finish_exchange\<close> that fails, so "not ready"
  is "before \<open>finish_exchange\<close> has completed".
\<close>

theorem pake_state_machine:
  "fst (start_exchange E p2 (snd (start_exchange E p1 (h, w)))) =
     Inl (RuntimeError ''PAKE exchange already started'') \<and>
   (spake_instance h = None \<longrightarrow>
      fst (finish_exchange E msg h) = Inl (RuntimeError ''Must call start_exchange() first'')) \<and>
   (fst (finish_exchange E msg h) = Inr () \<longrightarrow>
      fst (finish_exchange E msg' (snd (finish_exchange E msg h))) =
        Inl (RuntimeError ''PAKE exchange already completed'')) \<and>
   (\<not> is_ready h \<longrightarrow>
      fst (encrypt E x (h, w)) =
        Inl (RuntimeError ''PAKE exchange not completed - call finish_exchange() first'') \<and>
      decrypt E c h =
        Inl (RuntimeError ''PAKE exchange not completed - call finish_exchange() first'')) \<and>
   (PAKEHandler_init r = Inr h \<longrightarrow> spake_instance h = None \<and> \<not> is_ready h) \<and>
   (\<not> is_ready h \<longrightarrow> \<not> is_ready (fst (snd (start_exchange E p1 (h, w))))) \<and>
   (\<not> is_ready h \<and> fst (finish_exchange E msg h) \<noteq> Inr () \<longrightarrow>
      \<not> is_ready (snd (finish_exchange E msg h)))"
proof -
  have "\<not> is_ready h \<and> fst (finish_exchange E msg h) \<noteq> Inr () \<longrightarrow>
      \<not> is_ready (snd (finish_exchange E msg h))"
    using failed_finish_not_ready [of h E msg]
    by (cases "fst (finish_exchange E msg h)") auto
  then show ?thesis
    using start_twice [of E p2 p1 h w] finish_before_start [of h E msg]
      finish_twice [of E msg h "()" msg'] not_ready_encrypt [of h E x w]
      not_ready_decrypt [of h E c] init_not_ready [of r h] start_not_ready [of h E p1 w]
    by blast
qed

theorem pake_state_machine_witness:
  "PAKEHandler_init ''server'' = Inr toy_new \<and>
   spake_instance toy_new = None \<and> \<not> is_ready toy_new \<and>
   fst (finish_exchange toy_env [0x41, 9] toy_new) =
     Inl (RuntimeError ''Must call start_exchange() first'') \<and>
   fst (encrypt toy_env ''x'' (toy_new, toy_world)) =
     Inl (RuntimeError ''PAKE exchange not completed - call finish_exchange() first'') \<and>
   decrypt toy_env ''x'' toy_new =
     Inl (RuntimeError ''PAKE exchange not completed - call finish_exchange() first'') \<and>
   fst (finish_exchange toy_env [0x41, 9] toy_started) = Inr () \<and>
   fst (finish_exchange toy_env [] (snd (finish_exchange toy_env [0x41, 9] toy_started))) =
     Inl (RuntimeError ''PAKE exchange already completed'') \<and>
   \<not> is_ready toy_started \<and> fst (finish_exchange toy_env [] toy_started) \<noteq> Inr () \<and>
   \<not> is_ready (snd (finish_exchange toy_env [] toy_started))"
proof -
  have i: "PAKEHandler_init ''server'' = Inr toy_new"
    by (simp add: PAKEHandler_init_def toy_new_def)
  have f: "fst (finish_exchange toy_env [0x41, 9] toy_started) = Inr ()"
    by (simp add: toy_started_eq finish_exchange_def toy_env_def)
  have n: "\<not> is_ready toy_started"
    by (simp add: toy_started_eq is_ready_def)
  have g: "fst (finish_exchange toy_env [] toy_started) \<noteq> Inr ()"
    by (simp add: toy_started_eq finish_exchange_def toy_env_def)
  show ?thesis
    using i f n g
      pake_state_machine [where E = toy_env and h = toy_new and r = "''server''"
        and msg = "[0x41, 9]" and x = "''x''" and c = "''x''" and w = toy_world]
      pake_state_machine [where E = toy_env and h = toy_started and msg = "[0x41, 9]"
        and msg' = "[]"]
      pake_state_machine [where E = toy_env and h = toy_started and msg = "[]"]
    by blast
qed

text \<open>
  C9. On a handler that is ready, decrypting what \<open>encrypt\<close> returned for a string
  gives the string back, for every string, provided the libraries round-trip: the
  UTF-8 codec, base64, and Fernet under one key.
\<close>

theorem decrypt_inverts_encrypt:
  assumes "codecs_round_trip E" and "is_ready h"
  shows "\<exists>c. fst (encrypt E x (h, w)) = Inr c \<and> decrypt E c h = Inr x"
proof -
  from assms(2) obtain f where f: "fernet h = Some f"
    by (auto simp: is_ready_def)
  let ?c = "b64encode_str E (fernet_encrypt E f (entropy w (drawn w)) (str_encode E x))"
  have "fst (encrypt E x (h, w)) = Inr ?c"
    by (simp add: encrypt_def f urandom_def)
  moreover have "decrypt E ?c h = Inr x"
    using assms(1) by (simp add: decrypt_def f codecs_round_trip_def)
  ultimately show ?thesis by blast
qed

theorem decrypt_inverts_encrypt_witness:
  "codecs_round_trip toy_env \<and> is_ready toy_ready \<and>
   (\<exists>c. fst (encrypt toy_env ''secret'' (toy_ready, toy_world)) = Inr c \<and>
        decrypt toy_env c toy_ready = Inr ''secret'')"
proof -
  have r: "is_ready toy_ready" by (simp add: toy_ready_eq is_ready_def)
  show ?thesis using decrypt_inverts_encrypt [OF toy_round_trip r] toy_round_trip r by blast
qed

section \<open>Credential requests\<close>




lemma handle_live_session:
  assumes "active_sessions m sid = Some s"
    and "\<not> clock w (Suc (ticks w)) > sess_expires_at s"
  shows "handle_credential_request E sid payload (m, w) =
     (let s1 = s\<lparr>last_access := clock w (ticks w)\<rparr>;
          m1 = m\<lparr>active_sessions := (active_sessions m)(sid \<mapsto> s1)\<rparr>;
          w2 = w\<lparr>ticks := Suc (Suc (ticks w))\<rparr>
      in case decrypt_request E (pake_handler s) payload of
           Inl e \<Rightarrow> (Inr (Status_error ''Decryption failed''), m1, w2)
         | Inr d \<Rightarrow> (fst (answer_request E (callback_handler m) s1 d w2), m1,
                     snd (answer_request E (callback_handler m) s1 d w2)))"
  using assms
  by (simp add: handle_credential_request_def utcnow_def Let_def split: sum.splits prod.splits)




text \<open>
  C10. With no callback handler registered, a request on a session that is in the
  table and has not expired, whose payload decrypts to a JSON object with a timestamp
  that parses and is not more than 300 seconds old, is answered with the error
  "No approval handler registered". The manager changes only in the session's
  \<open>last_access\<close>, the clock has been read three times, and the vault driver has not
  been called.
\<close>

theorem no_approval_handler:
  assumes "callback_handler m = None"
    and "active_sessions m sid = Some s"
    and "\<not> clock w (Suc (ticks w)) > sess_expires_at s"
    and "decrypt E payload (pake_handler s) = Inr plaintext"
    and "json_loads E plaintext = Inr (JObj d)"
    and "map_of d ''timestamp'' = Some (JStr ts)"
    and "fromisoformat E (rstrip_Z ts) = Inr t"
    and "\<not> clock w (ticks w + 2) - t > seconds 300"
  shows "handle_credential_request E sid payload (m, w) =
           (Inr (Status_error ''No approval handler registered''),
            m\<lparr>active_sessions :=
                (active_sessions m)(sid \<mapsto> s\<lparr>last_access := clock w (ticks w)\<rparr>)\<rparr>,
            w\<lparr>ticks := ticks w + 3\<rparr>) \<and>
         vault_log (snd (snd (handle_credential_request E sid payload (m, w)))) = vault_log w"
proof -
  have d: "decrypt_request E (pake_handler s) payload = Inr d"
    using assms(4,5) by (simp add: decrypt_request_def)
  have "handle_credential_request E sid payload (m, w) =
           (Inr (Status_error ''No approval handler registered''),
            m\<lparr>active_sessions :=
                (active_sessions m)(sid \<mapsto> s\<lparr>last_access := clock w (ticks w)\<rparr>)\<rparr>,
            w\<lparr>ticks := ticks w + 3\<rparr>)"
    using assms(1,6,7,8)
    by (simp add: handle_live_session [OF assms(2,3)] d Let_def answer_request_def
                  subscript_def utcnow_def)
  then show ?thesis by simp
qed

theorem no_approval_handler_witness:
  "callback_handler toy_manager = None \<and>
   active_sessions toy_manager ''sess_x'' = Some toy_session \<and>
   \<not> clock toy_world (Suc (ticks toy_world)) > sess_expires_at toy_session \<and>
   decrypt toy_env (toy_payload ''now'') (pake_handler toy_session) = Inr ''now'' \<and>
   \<not> clock toy_world (ticks toy_world + 2) - 1000000000 > seconds 300 \<and>
   fst (handle_credential_request toy_env ''sess_x'' (toy_payload ''now'')
          (toy_manager, toy_world)) = Inr (Status_error ''No approval handler registered'') \<and>
   vault_log (snd (snd (handle_credential_request toy_env ''sess_x'' (toy_payload ''now'')
          (toy_manager, toy_world)))) = vault_log toy_world"
proof -
  have n: "callback_handler toy_manager = None"
    by (simp add: toy_manager_def)
  have a: "active_sessions toy_manager ''sess_x'' = Some toy_session"
    and b: "\<not> clock toy_world (Suc (ticks toy_world)) > sess_expires_at toy_session"
    using toy_session_live by simp_all
  have c: "decrypt toy_env (toy_payload ''now'') (pake_handler toy_session) = Inr ''now''"
    using toy_decrypt toy_session_live by simp
  have d: "map_of [(''domain'', JStr ''example.com''), (''reason'', JStr ''login''),
                (''agent_id'', JStr ''a1''), (''agent_name'', JStr ''A1''),
                (''timestamp'', JStr ''nowZ''), (''nonce'', JStr ''00ff00ff00ff00ff'')]
             ''timestamp'' = Some (JStr ''nowZ'')"
    by simp
  have e: "\<not> clock toy_world (ticks toy_world + 2) - 1000000000 > seconds 300"
    by (simp add: toy_world_def seconds_def)
  show ?thesis
    using no_approval_handler [OF n a b c toy_json_loads(3) d toy_fromisoformat(3) e] n a b c e
    by simp
qed

lemma decrypt_request_not_object:
  assumes "decrypt E payload h = Inr plaintext"
    and "\<forall>d. json_loads E plaintext \<noteq> Inr (JObj d)"
  shows "\<exists>e. decrypt_request E h payload = Inl e"
proof (cases "json_loads E plaintext")
  case (Inl e)
  then show ?thesis using assms(1) by (simp add: decrypt_request_def)
next
  case (Inr v)
  then show ?thesis using assms by (cases v) (simp_all add: decrypt_request_def)
qed

lemma answer_request_reads_three_fields:
  assumes "map_of d ''timestamp'' = map_of d' ''timestamp''"
    and "map_of d ''domain'' = map_of d' ''domain''"
    and "map_of d ''reason'' = map_of d' ''reason''"
  shows "answer_request E cb s d w = answer_request E cb s d' w"
proof -
  have e: "subscript d ''timestamp'' = subscript d' ''timestamp''"
    "subscript d ''domain'' = subscript d' ''domain''"
    "subscript d ''reason'' = subscript d' ''reason''"
    using assms by (simp_all add: subscript_def)
  show ?thesis
    unfolding answer_request_def e by (rule refl)
qed

text \<open>
  C2 (as the code has it). On a session that is in the table and has not expired, a
  payload that decrypts to something that is not a JSON object (it does not parse, or
  it parses to another kind of value) is answered with "Decryption failed". Of a JSON
  object only \<open>timestamp\<close>, \<open>domain\<close> and \<open>reason\<close> are read: two requests
  that agree on these three get the same answer, so the absence of \<open>agent_id\<close>,
  \<open>agent_name\<close> or \<open>nonce\<close> is not an error.
\<close>

theorem request_parsing:
  assumes "active_sessions m sid = Some s"
    and "\<not> clock w (Suc (ticks w)) > sess_expires_at s"
  shows "(decrypt E payload (pake_handler s) = Inr plaintext \<and>
            (\<forall>d. json_loads E plaintext \<noteq> Inr (JObj d)) \<longrightarrow>
          fst (handle_credential_request E sid payload (m, w)) =
            Inr (Status_error ''Decryption failed'')) \<and>
         (decrypt E payload (pake_handler s) = Inr plaintext \<and>
            json_loads E plaintext = Inr (JObj d) \<and>
            decrypt E payload' (pake_handler s) = Inr plaintext' \<and>
            json_loads E plaintext' = Inr (JObj d') \<and>
            map_of d ''timestamp'' = map_of d' ''timestamp'' \<and>
            map_of d ''domain'' = map_of d' ''domain'' \<and>
            map_of d ''reason'' = map_of d' ''reason'' \<longrightarrow>
          handle_credential_request E sid payload (m, w) =
            handle_credential_request E sid payload' (m, w))"
proof (intro conjI impI)
  assume "decrypt E payload (pake_handler s) = Inr plaintext \<and>
            (\<forall>d. json_loads E plaintext \<noteq> Inr (JObj d))"
  then obtain e where "decrypt_request E (pake_handler s) payload = Inl e"
    using decrypt_request_not_object by blast
  then show "fst (handle_credential_request E sid payload (m, w)) =
            Inr (Status_error ''Decryption failed'')"
    by (simp add: handle_live_session [OF assms] Let_def)
next
  assume h: "decrypt E payload (pake_handler s) = Inr plaintext \<and>
            json_loads E plaintext = Inr (JObj d) \<and>
            decrypt E payload' (pake_handler s) = Inr plaintext' \<and>
            json_loads E plaintext' = Inr (JObj d') \<and>
            map_of d ''timestamp'' = map_of d' ''timestamp'' \<and>
            map_of d ''domain'' = map_of d' ''domain'' \<and>
            map_of d ''reason'' = map_of d' ''reason''"
  then have "decrypt_request E (pake_handler s) payload = Inr d"
    and "decrypt_request E (pake_handler s) payload' = Inr d'"
    by (simp_all add: decrypt_request_def)
  moreover have "\<And>cb s1 w1. answer_request E cb s1 d w1 = answer_request E cb s1 d' w1"
    using h answer_request_reads_three_fields by blast
  ultimately show "handle_credential_request E sid payload (m, w) =
            handle_credential_request E sid payload' (m, w)"
    by (simp add: handle_live_session [OF assms] Let_def)
qed

lemma toy_bare_request:
  "decrypt_request toy_env toy_ready (toy_payload ''bare'') =
     Inr [(''domain'', JStr ''example.com''), (''reason'', JStr ''login''),
          (''timestamp'', JStr ''nowZ'')]"
  by (simp add: decrypt_request_def toy_decrypt toy_json_loads)

lemma toy_retrieve:
  "fst (retrieve_credential toy_env (toy_session\<lparr>last_access := t\<rparr>) (JStr ''example.com'') w) =
     Status_approved (CHR ''='' # char_of_byte (of_nat (entropy w (drawn w + 8))) # ''cred'')"
  by (simp add: retrieve_credential_def cli_list_items_def toy_env_def toy_session_def
                toy_ready_eq utcnow_def token_hex_def token_bytes_def encrypt_def urandom_def
                char_of_byte_of_char comp_def)

theorem request_parsing_counterexample:
  "active_sessions toy_approving_manager ''sess_x'' = Some toy_session \<and>
   \<not> clock toy_world (Suc (ticks toy_world)) > sess_expires_at toy_session \<and>
   decrypt toy_env (toy_payload ''bare'') (pake_handler toy_session) = Inr ''bare'' \<and>
   json_loads toy_env ''bare'' =
     Inr (JObj [(''domain'', JStr ''example.com''), (''reason'', JStr ''login''),
                (''timestamp'', JStr ''nowZ'')]) \<and>
   fst (handle_credential_request toy_env ''sess_x'' (toy_payload ''bare'')
          (toy_approving_manager, toy_world)) =
     Inr (Status_approved (CHR ''='' # char_of_byte 64 # ''cred''))"
proof -
  have a: "active_sessions toy_approving_manager ''sess_x'' = Some toy_session"
    and b: "\<not> clock toy_world (Suc (ticks toy_world)) > sess_expires_at toy_session"
    and h: "pake_handler toy_session = toy_ready"
    using toy_session_live by (simp_all add: toy_approving_manager_def set_callback_handler_def)
  have n: "callback_handler toy_approving_manager = Some approve_all"
    by (simp add: toy_approving_manager_def set_callback_handler_def)
  have r: "fst (handle_credential_request toy_env ''sess_x'' (toy_payload ''bare'')
          (toy_approving_manager, toy_world)) =
     Inr (Status_approved (CHR ''='' # char_of_byte 64 # ''cred''))"
    by (subst handle_live_session [OF a b])
       (simp add: h toy_bare_request n answer_request_def subscript_def toy_fromisoformat
                  utcnow_def approve_all_def Let_def case_prod_beta toy_retrieve
                  toy_world_def seconds_def)
  show ?thesis
    using a b h r toy_decrypt toy_json_loads(4) by simp
qed

theorem request_parsing_witness:
  "active_sessions toy_manager ''sess_x'' = Some toy_session \<and>
   \<not> clock toy_world (Suc (ticks toy_world)) > sess_expires_at toy_session \<and>
   decrypt toy_env (toy_payload ''[]'') (pake_handler toy_session) = Inr ''[]'' \<and>
   (\<forall>d. json_loads toy_env ''[]'' \<noteq> Inr (JObj d)) \<and>
   fst (handle_credential_request toy_env ''sess_x'' (toy_payload ''[]'')
          (toy_manager, toy_world)) = Inr (Status_error ''Decryption failed'') \<and>
   decrypt toy_env (toy_payload ''now'') (pake_handler toy_session) = Inr ''now'' \<and>
   decrypt toy_env (toy_payload ''bare'') (pake_handler toy_session) = Inr ''bare'' \<and>
   handle_credential_request toy_env ''sess_x'' (toy_payload ''now'') (toy_manager, toy_world) =
     handle_credential_request toy_env ''sess_x'' (toy_payload ''bare'') (toy_manager, toy_world)"
proof -
  have a: "active_sessions toy_manager ''sess_x'' = Some toy_session"
    and b: "\<not> clock toy_world (Suc (ticks toy_world)) > sess_expires_at toy_session"
    and h: "pake_handler toy_session = toy_ready"
    using toy_session_live by simp_all
  have c: "decrypt toy_env (toy_payload ''[]'') (pake_handler toy_session) = Inr ''[]''"
    "decrypt toy_env (toy_payload ''now'') (pake_handler toy_session) = Inr ''now''"
    "decrypt toy_env (toy_payload ''bare'') (pake_handler toy_session) = Inr ''bare''"
    using toy_decrypt h by simp_all
  have j: "\<forall>d. json_loads toy_env ''[]'' \<noteq> Inr (JObj d)"
    by (simp add: toy_json_loads)
  let ?full = "[(''domain'', JStr ''example.com''), (''reason'', JStr ''login''),
                (''agent_id'', JStr ''a1''), (''agent_name'', JStr ''A1''),
                (''timestamp'', JStr ''nowZ''), (''nonce'', JStr ''00ff00ff00ff00ff'')]"
  let ?bare = "[(''domain'', JStr ''example.com''), (''reason'', JStr ''login''),
                (''timestamp'', JStr ''nowZ'')]"
  have k: "map_of ?full ''timestamp'' = map_of ?bare ''timestamp''"
    "map_of ?full ''domain'' = map_of ?bare ''domain''"
    "map_of ?full ''reason'' = map_of ?bare ''reason''"
    by simp_all
  show ?thesis
    using request_parsing [OF a b, where E = toy_env and payload = "toy_payload ''[]''"
        and plaintext = "''[]''"]
      request_parsing [OF a b, where E = toy_env and payload = "toy_payload ''now''"
        and plaintext = "''now''" and d = ?full and payload' = "toy_payload ''bare''"
        and plaintext' = "''bare''" and d' = ?bare]
      a b c j k toy_json_loads(3,4)
    by blast
qed

text \<open>
  A JSON object without \<open>timestamp\<close> is outside what the \<open>try\<close> block covers:
  the \<open>KeyError\<close> of line 322 leaves the function.
\<close>

lemma missing_timestamp_raises:
  "fst (handle_credential_request toy_env ''sess_x'' (toy_payload ''{}'')
          (toy_manager, toy_world)) = Inl (KeyError ''timestamp'')"
proof -
  have a: "active_sessions toy_manager ''sess_x'' = Some toy_session"
    and b: "\<not> clock toy_world (Suc (ticks toy_world)) > sess_expires_at toy_session"
    and h: "pake_handler toy_session = toy_ready"
    using toy_session_live by simp_all
  have c: "decrypt_request toy_env toy_ready (toy_payload ''{}'') = Inr []"
    by (simp add: decrypt_request_def toy_decrypt toy_json_loads)
  show ?thesis
    by (subst handle_live_session [OF a b])
       (simp add: h c answer_request_def subscript_def)
qed

text \<open>
  C5 (as the code has it). \<open>get_session_status\<close> does not look at
  \<open>expires_at\<close>: it returns the snapshot of every session in the table and
  \<open>None\<close> only for an id that is not there. \<open>handle_credential_request\<close>
  answers "Invalid or expired session" for an id that is not in the table, and for a
  session whose \<open>expires_at\<close> is before the second clock reading of the call it
  answers "Session expired" and removes the session, after which
  \<open>get_session_status\<close> returns \<open>None\<close>.
\<close>

theorem session_expiry:
  "(active_sessions m sid = Some s \<longrightarrow>
      get_session_status E sid m =
        Some \<lparr>active = True, status_agent_name = sess_agent_name s,
              status_last_access = isoformat E (last_access s) @ ''Z'',
              status_expires_at = isoformat E (sess_expires_at s) @ ''Z''\<rparr>) \<and>
   (active_sessions m sid = None \<longrightarrow>
      get_session_status E sid m = None \<and>
      handle_credential_request E sid payload (m, w) =
        (Inr (Status_error ''Invalid or expired session''), m, w)) \<and>
   (active_sessions m sid = Some s \<and> clock w (Suc (ticks w)) > sess_expires_at s \<longrightarrow>
      handle_credential_request E sid payload (m, w) =
        (Inr (Status_error ''Session expired''),
         m\<lparr>active_sessions := (active_sessions m)(sid := None)\<rparr>,
         w\<lparr>ticks := ticks w + 2\<rparr>) \<and>
      get_session_status E sid (fst (snd (handle_credential_request E sid payload (m, w)))) =
        None)"
  by (simp add: get_session_status_def handle_credential_request_def utcnow_def)

theorem session_expiry_witness:
  "active_sessions toy_expired_manager ''sess_x'' =
     Some (toy_session\<lparr>sess_expires_at := 950000000\<rparr>) \<and>
   clock toy_world (Suc (ticks toy_world)) >
     sess_expires_at (toy_session\<lparr>sess_expires_at := 950000000\<rparr>) \<and>
   fst (handle_credential_request toy_env ''sess_x'' (toy_payload ''now'')
          (toy_expired_manager, toy_world)) = Inr (Status_error ''Session expired'') \<and>
   active_sessions toy_manager ''sess_y'' = None \<and>
   get_session_status toy_env ''sess_y'' toy_manager = None"
proof -
  have a: "active_sessions toy_expired_manager ''sess_x'' =
     Some (toy_session\<lparr>sess_expires_at := 950000000\<rparr>)"
    by (simp add: toy_expired_manager_def)
  have b: "clock toy_world (Suc (ticks toy_world)) >
     sess_expires_at (toy_session\<lparr>sess_expires_at := 950000000\<rparr>)"
    by (simp add: toy_world_def)
  have c: "active_sessions toy_manager ''sess_y'' = None"
    by (simp add: toy_manager_def)
  show ?thesis
    using session_expiry [where m = toy_expired_manager and sid = "''sess_x''"
        and s = "toy_session\<lparr>sess_expires_at := 950000000\<rparr>" and w = toy_world
        and E = toy_env and payload = "toy_payload ''now''"]
      session_expiry [where m = toy_manager and sid = "''sess_y''" and E = toy_env]
      a b c
    by simp
qed

theorem session_expiry_counterexample:
  "active_sessions toy_expired_manager ''sess_x'' =
     Some (toy_session\<lparr>sess_expires_at := 950000000\<rparr>) \<and>
   sess_expires_at (toy_session\<lparr>sess_expires_at := 950000000\<rparr>) < clock toy_world 0 \<and>
   get_session_status toy_env ''sess_x'' toy_expired_manager =
     Some \<lparr>active = True, status_agent_name = ''A1'', status_last_access = ''tZ'',
           status_expires_at = ''tZ''\<rparr>"
  by (simp add: toy_expired_manager_def toy_world_def get_session_status_def toy_session_def
                toy_env_def)

section \<open>Pairing and promotion to a session\<close>

lemma str_nat_small: "n < 10 \<Longrightarrow> str_nat n = [digit_char n]"
  by (subst str_nat.simps) simp

lemma str_nat_large:
  "10 \<le> n \<Longrightarrow> str_nat n = str_nat (n div 10) @ [digit_char (n mod 10)]"
  by (subst str_nat.simps) simp

lemma hex_digit_in: "d < 16 \<Longrightarrow> hex_digit d \<in> set ''0123456789abcdef''"
  unfolding hex_digit_def by (rule nth_mem) simp

lemma hex_byte_form:
  "length (hex_byte b) = 2 \<and> set (hex_byte b) \<subseteq> set ''0123456789abcdef''"
proof -
  have "unat b < 256" using unsigned_less [of b] by simp
  then have "unat b div 16 < 16" and "unat b mod 16 < 16" by simp_all
  then have "hex_digit (unat b div 16) \<in> set ''0123456789abcdef''"
    and "hex_digit (unat b mod 16) \<in> set ''0123456789abcdef''"
    by (simp_all only: hex_digit_in)
  then show ?thesis by (simp add: hex_byte_def)
qed

lemma concat_hex_form:
  "length (concat (map hex_byte bs)) = 2 * length bs \<and>
   set (concat (map hex_byte bs)) \<subseteq> set ''0123456789abcdef''"
proof (induction bs)
  case Nil
  then show ?case by simp
next
  case (Cons b bs)
  then show ?case using hex_byte_form [of b] by auto
qed

lemma token_hex_form:
  "length (fst (token_hex n w)) = 2 * n \<and>
   set (fst (token_hex n w)) \<subseteq> set ''0123456789abcdef'' \<and>
   snd (token_hex n w) = w\<lparr>drawn := drawn w + n\<rparr>"
  using concat_hex_form [of "map (\<lambda>i. of_nat (entropy w (drawn w + i))) [0..<n]"]
  by (simp add: token_hex_def token_bytes_def)

lemma finish_error_is_ValueError:
  assumes "spake_instance h \<noteq> None" and "shared_key h = None"
    and "fst (finish_exchange E msg h) = Inl e"
  shows "is_ValueError e"
  using assms
  by (auto simp: finish_exchange_def pake_failed_def Let_def
           split: option.splits prod.splits sum.splits)

lemma server_handler_started:
  "spake_instance (fst (snd (start_exchange E code
      (\<lparr>role = ''server'', spake_instance = None, shared_key = None, fernet = None\<rparr>, w)))) \<noteq> None \<and>
   shared_key (fst (snd (start_exchange E code
      (\<lparr>role = ''server'', spake_instance = None, shared_key = None, fernet = None\<rparr>, w)))) = None \<and>
   (\<exists>msg_out. fst (start_exchange E code
      (\<lparr>role = ''server'', spake_instance = None, shared_key = None, fernet = None\<rparr>, w)) = Inr msg_out) \<and>
   snd (snd (start_exchange E code
      (\<lparr>role = ''server'', spake_instance = None, shared_key = None, fernet = None\<rparr>, w))) =
     w\<lparr>drawn := Suc (drawn w)\<rparr>"
  by (simp add: start_exchange_def urandom_def Let_def split: prod.splits)

text \<open>
  The promotion step of \<open>exchange_pake_message\<close> (lines 232 to 272), once the
  pairing has been found, is not expired, and the message has been decoded.
\<close>

lemma exchange_entered:
  assumes "pending_pairings m code = Some p"
    and "\<not> clock w (ticks w) > expires_at p"
    and "user_entered p"
    and "b64decode E msg_in_a = Inr msg"
    and "start_exchange E code
           (\<lparr>role = ''server'', spake_instance = None, shared_key = None, fernet = None\<rparr>,
            w\<lparr>ticks := Suc (ticks w)\<rparr>) = (Inr msg_out_b, h1, w2)"
    and "finish_exchange E msg h1 = (r, h2)"
  shows "exchange_pake_message E code msg_in_a (m, w) =
     (let pairing = p\<lparr>agent_pake_message := Some msg\<rparr>;
          m1 = m\<lparr>pending_pairings := (pending_pairings m)(code \<mapsto> pairing)\<rparr>
      in case r of
           Inl e \<Rightarrow> if is_ValueError e then (Inr (Status_error ''PAKE exchange failed''), m1, w2)
                    else (Inl e, m1, w2)
         | Inr u \<Rightarrow>
             let sid = ''sess_'' @ fst (token_hex 16 w2);
                 now = clock w (Suc (ticks w));
                 session = \<lparr>session_id = sid, sess_agent_id = agent_id p,
                            sess_agent_name = agent_name p, pake_handler = h2,
                            sess_bitwarden_session_token = bitwarden_session_token p,
                            sess_created_at = now, last_access = now,
                            sess_expires_at = now + minutes 30\<rparr>
             in (Inr (Status_success sid (b64encode_str E msg_out_b) (agent_id p)),
                 m\<lparr>pending_pairings := (pending_pairings m)(code := None),
                   active_sessions := (active_sessions m)(sid \<mapsto> session)\<rparr>,
                 w2\<lparr>drawn := drawn w2 + 16, ticks := Suc (ticks w2)\<rparr>))"
proof -
  have w2: "w2 = w\<lparr>ticks := Suc (ticks w), drawn := Suc (drawn w)\<rparr>"
    using assms(5) server_handler_started [of E code "w\<lparr>ticks := Suc (ticks w)\<rparr>"]
    by simp
  have t: "token_hex 16 w2 = (fst (token_hex 16 w2), w2\<lparr>drawn := drawn w2 + 16\<rparr>)"
    using token_hex_form [of 16 w2] by (metis prod.collapse)
  show ?thesis
    using assms(1-4)
    apply (simp add: exchange_pake_message_def utcnow_def PAKEHandler_init_def assms(5,6)
                     Let_def)
    apply (cases r)
     apply simp
    apply (subst t)
    apply (simp add: w2 utcnow_def Let_def)
    done
qed

text \<open>
  C4. When \<open>exchange_pake_message\<close> is called for a pairing that is in the table,
  is not expired at the first clock reading, has \<open>user_entered\<close> set, with a
  message that base64-decodes, and the server handler's \<open>finish_exchange\<close>
  succeeds, it returns success with a session id \<open>sess_\<close> followed by exactly 32
  lower-case hex characters; the session stored under that id carries the pairing's
  vault token, the completed handler, and \<open>expires_at\<close> equal to the second clock
  reading plus 30 minutes; and the pairing is no longer in \<open>pending_pairings\<close>.
\<close>

theorem exchange_success:
  assumes "pending_pairings m code = Some p"
    and "\<not> clock w (ticks w) > expires_at p"
    and "user_entered p"
    and "b64decode E msg_in_a = Inr msg"
    and "start_exchange E code
           (\<lparr>role = ''server'', spake_instance = None, shared_key = None, fernet = None\<rparr>,
            w\<lparr>ticks := Suc (ticks w)\<rparr>) = (Inr msg_out_b, h1, w2)"
    and "finish_exchange E msg h1 = (Inr (), h2)"
    and "exchange_pake_message E code msg_in_a (m, w) = (r, m', w')"
  shows "\<exists>tok. length tok = 32 \<and> set tok \<subseteq> set ''0123456789abcdef'' \<and>
           r = Inr (Status_success (''sess_'' @ tok) (b64encode_str E msg_out_b) (agent_id p)) \<and>
           (\<exists>s. active_sessions m' (''sess_'' @ tok) = Some s \<and>
                sess_bitwarden_session_token s = bitwarden_session_token p \<and>
                sess_expires_at s = clock w (Suc (ticks w)) + minutes 30 \<and>
                pake_handler s = h2) \<and>
           pending_pairings m' code = None"
proof -
  let ?tok = "fst (token_hex 16 w2)"
  have "length ?tok = 32" and "set ?tok \<subseteq> set ''0123456789abcdef''"
    using token_hex_form [of 16 w2] by simp_all
  moreover have "r = Inr (Status_success (''sess_'' @ ?tok) (b64encode_str E msg_out_b)
      (agent_id p))"
    and "\<exists>s. active_sessions m' (''sess_'' @ ?tok) = Some s \<and>
                sess_bitwarden_session_token s = bitwarden_session_token p \<and>
                sess_expires_at s = clock w (Suc (ticks w)) + minutes 30 \<and>
                pake_handler s = h2"
    and "pending_pairings m' code = None"
    using assms(7) unfolding exchange_entered [OF assms(1-6)]
    by (auto simp: Let_def)
  ultimately show ?thesis by blast
qed

lemma toy_server_start:
  "start_exchange toy_env ''100056''
     (\<lparr>role = ''server'', spake_instance = None, shared_key = None, fernet = None\<rparr>,
      toy_world\<lparr>ticks := Suc (ticks toy_world)\<rparr>) =
   (Inr [0x42, 56], toy_started, toy_world\<lparr>ticks := 1, drawn := 1\<rparr>)"
  by (simp add: toy_started_eq start_exchange_def urandom_def toy_env_def toy_world_def)

lemma toy_server_finish:
  "finish_exchange toy_env [0x41, 0x39] toy_started = (Inr (), toy_ready)"
  "finish_exchange toy_env [] toy_started =
     (Inl (ValueError ''PAKE exchange failed (wrong password or invalid message): bad length''),
      toy_started)"
  "finish_exchange toy_env [0x42, 9] toy_started =
     (Inl (ValueError ''PAKE exchange failed (wrong password or invalid message): wrong side''),
      toy_started)"
  by (simp_all add: toy_started_eq toy_ready_eq finish_exchange_def toy_env_def pake_failed_def)

lemma toy_b64decode:
  "b64decode toy_env ''=A9'' = Inr [0x41, 0x39]"
  "b64decode toy_env ''='' = Inr []"
  by (simp_all add: toy_env_def byte_of_char_def)

lemma toy_unlocked_pairing:
  "pending_pairings toy_unlocked_manager ''100056'' =
     Some (toy_pairing\<lparr>user_entered := True, bitwarden_session_token := Some ''T''\<rparr>) \<and>
   \<not> clock toy_world (ticks toy_world) >
       expires_at (toy_pairing\<lparr>user_entered := True, bitwarden_session_token := Some ''T''\<rparr>) \<and>
   user_entered (toy_pairing\<lparr>user_entered := True, bitwarden_session_token := Some ''T''\<rparr>)"
  by (simp add: toy_unlocked_manager_def toy_pairing_def toy_world_def)

theorem exchange_success_witness:
  "pending_pairings toy_unlocked_manager ''100056'' =
     Some (toy_pairing\<lparr>user_entered := True, bitwarden_session_token := Some ''T''\<rparr>) \<and>
   \<not> clock toy_world (ticks toy_world) >
       expires_at (toy_pairing\<lparr>user_entered := True, bitwarden_session_token := Some ''T''\<rparr>) \<and>
   user_entered (toy_pairing\<lparr>user_entered := True, bitwarden_session_token := Some ''T''\<rparr>) \<and>
   b64decode toy_env ''=A9'' = Inr [0x41, 0x39] \<and>
   finish_exchange toy_env [0x41, 0x39] toy_started = (Inr (), toy_ready) \<and>
   (\<exists>tok. length tok = 32 \<and> set tok \<subseteq> set ''0123456789abcdef'' \<and>
      fst (exchange_pake_message toy_env ''100056'' ''=A9'' (toy_unlocked_manager, toy_world)) =
        Inr (Status_success (''sess_'' @ tok) (b64encode_str toy_env [0x42, 56]) ''a1'') \<and>
      (\<exists>s. active_sessions (fst (snd (exchange_pake_message toy_env ''100056'' ''=A9''
                (toy_unlocked_manager, toy_world)))) (''sess_'' @ tok) = Some s \<and>
           sess_bitwarden_session_token s = Some ''T'' \<and>
           sess_expires_at s = clock toy_world 1 + minutes 30 \<and>
           pake_handler s = toy_ready) \<and>
      pending_pairings (fst (snd (exchange_pake_message toy_env ''100056'' ''=A9''
                (toy_unlocked_manager, toy_world)))) ''100056'' = None)"
proof -
  let ?p = "toy_pairing\<lparr>user_entered := True, bitwarden_session_token := Some ''T''\<rparr>"
  have a: "pending_pairings toy_unlocked_manager ''100056'' = Some ?p"
    and b: "\<not> clock toy_world (ticks toy_world) > expires_at ?p"
    and c: "user_entered ?p"
    using toy_unlocked_pairing by simp_all
  have v: "agent_id ?p = ''a1''" "bitwarden_session_token ?p = Some ''T''"
    "Suc (ticks toy_world) = 1"
    by (simp_all add: toy_pairing_def toy_world_def)
  obtain r m' w' where x: "exchange_pake_message toy_env ''100056'' ''=A9''
      (toy_unlocked_manager, toy_world) = (r, m', w')"
    by (cases "exchange_pake_message toy_env ''100056'' ''=A9''
      (toy_unlocked_manager, toy_world)") auto
  show ?thesis
    using exchange_success [OF a b c toy_b64decode(1) toy_server_start toy_server_finish(1) x]
      a b c toy_b64decode(1) toy_server_finish(1)
    by (simp add: x v)
qed

lemma finish_failure_message:
  assumes "spake_instance h = Some inst" and "shared_key h = None"
    and "fst (spake_finish E inst msg) = Inl e"
  shows "fst (finish_exchange E msg h) =
      Inl (ValueError (''PAKE exchange failed (wrong password or invalid message): ''
                       @ exn_str e))"
  using assms
  by (cases "spake_finish E inst msg") (simp add: finish_exchange_def pake_failed_def)

lemma exchange_failure_generic:
  assumes "pending_pairings m code = Some p"
    and "\<not> clock w (ticks w) > expires_at p"
    and "user_entered p"
    and "b64decode E msg_in_a = Inr msg"
    and "fst (finish_exchange E msg (fst (snd (start_exchange E code
             (\<lparr>role = ''server'', spake_instance = None, shared_key = None, fernet = None\<rparr>,
              w\<lparr>ticks := Suc (ticks w)\<rparr>))))) = Inl e'"
  shows "fst (exchange_pake_message E code msg_in_a (m, w)) =
      Inr (Status_error ''PAKE exchange failed'')"
proof -
  obtain r h1 w2 where s: "start_exchange E code
             (\<lparr>role = ''server'', spake_instance = None, shared_key = None, fernet = None\<rparr>,
              w\<lparr>ticks := Suc (ticks w)\<rparr>) = (r, h1, w2)"
    using prod_cases3 by blast
  have st: "spake_instance h1 \<noteq> None" "shared_key h1 = None" "\<exists>msg_out. r = Inr msg_out"
    using server_handler_started [of E code "w\<lparr>ticks := Suc (ticks w)\<rparr>"]
    by (simp_all add: s)
  then obtain msg_out where r: "r = Inr msg_out" by blast
  have f1: "fst (finish_exchange E msg h1) = Inl e'"
    using assms(5) by (simp add: s)
  then obtain h2 where f: "finish_exchange E msg h1 = (Inl e', h2)"
    by (metis prod.collapse)
  have v: "is_ValueError e'"
    using finish_error_is_ValueError [OF st(1,2) f1] .
  show ?thesis
    using v by (simp add: exchange_entered [OF assms(1-4) s [unfolded r] f] Let_def)
qed

text \<open>
  C3 (as the code has it). When the SPAKE2 completion fails inside
  \<open>finish_exchange\<close>, the \<open>ValueError\<close> raised to the caller is the fixed text
  "PAKE exchange failed (wrong password or invalid message): " followed by the text of
  the library's own exception. It is \<open>exchange_pake_message\<close> that reports every
  failure of \<open>finish_exchange\<close> on the server handler as the same
  "PAKE exchange failed".
\<close>

theorem pake_failure_reporting:
  "(spake_instance h = Some inst \<and> shared_key h = None \<and>
      fst (spake_finish E inst msg) = Inl e \<longrightarrow>
    fst (finish_exchange E msg h) =
      Inl (ValueError (''PAKE exchange failed (wrong password or invalid message): ''
                       @ exn_str e))) \<and>
   (pending_pairings m code = Some p \<and> \<not> clock w (ticks w) > expires_at p \<and>
      user_entered p \<and> b64decode E msg_in_a = Inr msg \<and>
      fst (finish_exchange E msg (fst (snd (start_exchange E code
             (\<lparr>role = ''server'', spake_instance = None, shared_key = None, fernet = None\<rparr>,
              w\<lparr>ticks := Suc (ticks w)\<rparr>))))) = Inl e' \<longrightarrow>
    fst (exchange_pake_message E code msg_in_a (m, w)) =
      Inr (Status_error ''PAKE exchange failed''))"
  using finish_failure_message [of h inst E msg e]
    exchange_failure_generic [of m code p w E msg_in_a msg e']
  by blast

theorem pake_failure_reporting_witness:
  "spake_instance toy_started = Some (0x42 # map byte_of_char ''100056'') \<and>
   shared_key toy_started = None \<and>
   fst (spake_finish toy_env (0x42 # map byte_of_char ''100056'') []) =
     Inl (OtherError ''AssertionError'' ''bad length'') \<and>
   fst (finish_exchange toy_env [] toy_started) =
     Inl (ValueError ''PAKE exchange failed (wrong password or invalid message): bad length'') \<and>
   pending_pairings toy_unlocked_manager ''100056'' =
     Some (toy_pairing\<lparr>user_entered := True, bitwarden_session_token := Some ''T''\<rparr>) \<and>
   b64decode toy_env ''='' = Inr [] \<and>
   fst (exchange_pake_message toy_env ''100056'' ''='' (toy_unlocked_manager, toy_world)) =
     Inr (Status_error ''PAKE exchange failed'')"
proof -
  let ?p = "toy_pairing\<lparr>user_entered := True, bitwarden_session_token := Some ''T''\<rparr>"
  have a: "spake_instance toy_started = Some (0x42 # map byte_of_char ''100056'')"
    "shared_key toy_started = None"
    by (simp_all add: toy_started_eq)
  have b: "fst (spake_finish toy_env (0x42 # map byte_of_char ''100056'') []) =
     Inl (OtherError ''AssertionError'' ''bad length'')"
    by (simp add: toy_env_def)
  have c: "fst (finish_exchange toy_env [] (fst (snd (start_exchange toy_env ''100056''
             (\<lparr>role = ''server'', spake_instance = None, shared_key = None, fernet = None\<rparr>,
              toy_world\<lparr>ticks := Suc (ticks toy_world)\<rparr>))))) =
     Inl (ValueError ''PAKE exchange failed (wrong password or invalid message): bad length'')"
    by (simp add: toy_server_start toy_server_finish)
  show ?thesis
    using pake_failure_reporting [where E = toy_env and h = toy_started
        and inst = "0x42 # map byte_of_char ''100056''" and msg = "[]"
        and e = "OtherError ''AssertionError'' ''bad length''"]
      pake_failure_reporting [where E = toy_env and m = toy_unlocked_manager
        and code = "''100056''" and p = ?p and w = toy_world and msg_in_a = "''=''"
        and msg = "[]"
        and e' = "ValueError
          ''PAKE exchange failed (wrong password or invalid message): bad length''"]
      a b c toy_unlocked_pairing toy_b64decode(2)
    by simp
qed

theorem pake_failure_reporting_counterexample:
  "spake_instance toy_started \<noteq> None \<and>
   fst (finish_exchange toy_env [] toy_started) =
     Inl (ValueError ''PAKE exchange failed (wrong password or invalid message): bad length'') \<and>
   fst (finish_exchange toy_env [0x42, 9] toy_started) =
     Inl (ValueError ''PAKE exchange failed (wrong password or invalid message): wrong side'') \<and>
   fst (finish_exchange toy_env [] toy_started) \<noteq>
     fst (finish_exchange toy_env [0x42, 9] toy_started) \<and>
   fst (finish_exchange toy_env [] toy_started) \<noteq> Inl (ValueError ''PAKE exchange failed'')"
proof -
  have "spake_instance toy_started \<noteq> None"
    by (simp add: toy_started_eq)
  then show ?thesis
    by (simp add: toy_server_finish)
qed

lemma exchange_not_entered:
  assumes "pending_pairings m code = Some p"
    and "\<not> clock w (ticks w) > expires_at p"
    and "\<not> user_entered p"
    and "b64decode E msg_in_a = Inr msg"
  shows "exchange_pake_message E code msg_in_a (m, w) =
           (Inr Status_waiting,
            m\<lparr>pending_pairings :=
                (pending_pairings m)(code \<mapsto> p\<lparr>agent_pake_message := Some msg\<rparr>)\<rparr>,
            w\<lparr>ticks := Suc (ticks w)\<rparr>)"
  using assms by (simp add: exchange_pake_message_def utcnow_def)

text \<open>
  C7. For a pairing that is in the table and not expired, when the vault driver's
  unlock raises (whatever the error), \<open>mark_user_entered_code\<close> returns
  \<open>False\<close> and the manager is exactly as before: the pairing is still in
  \<open>pending_pairings\<close>, unchanged. The world has moved by one clock reading and one
  logged unlock call. If the pairing had \<open>user_entered\<close> false, a later
  \<open>exchange_pake_message\<close> on that code, made before the pairing expires and with
  a message that base64-decodes, still returns waiting.
\<close>

theorem failed_unlock:
  assumes "pending_pairings m code = Some p"
    and "\<not> clock w (ticks w) > expires_at p"
    and "bw_unlock E (w\<lparr>ticks := Suc (ticks w)\<rparr>) master_password = Inl e"
  shows "mark_user_entered_code E code master_password (m, w) =
           (False, m,
            w\<lparr>ticks := Suc (ticks w), vault_log := vault_log w @ [Unlock master_password]\<rparr>) \<and>
         pending_pairings (fst (snd (mark_user_entered_code E code master_password (m, w)))) code =
           Some p \<and>
         (\<not> user_entered p \<and> \<not> clock w' (ticks w') > expires_at p \<and>
            b64decode E msg_in_a = Inr msg \<longrightarrow>
          fst (exchange_pake_message E code msg_in_a
                 (fst (snd (mark_user_entered_code E code master_password (m, w))), w')) =
            Inr Status_waiting)"
proof -
  have k: "mark_user_entered_code E code master_password (m, w) =
           (False, m,
            w\<lparr>ticks := Suc (ticks w), vault_log := vault_log w @ [Unlock master_password]\<rparr>)"
    using assms by (simp add: mark_user_entered_code_def utcnow_def cli_unlock_def)
  show ?thesis
    using assms(1) exchange_not_entered [of m code p w' E msg_in_a msg]
    by (simp add: k)
qed

lemma toy_pending_pairing:
  "pending_pairings toy_pending_manager ''100056'' = Some toy_pairing \<and>
   \<not> clock toy_world (ticks toy_world) > expires_at toy_pairing \<and>
   \<not> user_entered toy_pairing \<and> bitwarden_session_token toy_pairing = None"
  by (simp add: toy_pending_manager_def toy_pairing_def toy_world_def)

theorem failed_unlock_witness:
  "pending_pairings toy_pending_manager ''100056'' = Some toy_pairing \<and>
   \<not> clock toy_world (ticks toy_world) > expires_at toy_pairing \<and>
   bw_unlock toy_env (toy_world\<lparr>ticks := Suc (ticks toy_world)\<rparr>) ''wrong'' =
     Inl (OtherError ''BitwardenCLIError'' ''Invalid master password'') \<and>
   \<not> user_entered toy_pairing \<and>
   \<not> clock (toy_world\<lparr>ticks := 1\<rparr>) (ticks (toy_world\<lparr>ticks := 1\<rparr>)) > expires_at toy_pairing \<and>
   b64decode toy_env ''=A9'' = Inr [0x41, 0x39] \<and>
   fst (mark_user_entered_code toy_env ''100056'' ''wrong'' (toy_pending_manager, toy_world)) =
     False \<and>
   fst (snd (mark_user_entered_code toy_env ''100056'' ''wrong'' (toy_pending_manager, toy_world))) =
     toy_pending_manager \<and>
   fst (exchange_pake_message toy_env ''100056'' ''=A9''
          (fst (snd (mark_user_entered_code toy_env ''100056'' ''wrong''
                       (toy_pending_manager, toy_world))),
           toy_world\<lparr>ticks := 1\<rparr>)) = Inr Status_waiting"
proof -
  have a: "pending_pairings toy_pending_manager ''100056'' = Some toy_pairing"
    and b: "\<not> clock toy_world (ticks toy_world) > expires_at toy_pairing"
    and n: "\<not> user_entered toy_pairing"
    using toy_pending_pairing by simp_all
  have c: "bw_unlock toy_env (toy_world\<lparr>ticks := Suc (ticks toy_world)\<rparr>) ''wrong'' =
     Inl (OtherError ''BitwardenCLIError'' ''Invalid master password'')"
    by (simp add: toy_env_def)
  have d: "\<not> clock (toy_world\<lparr>ticks := 1\<rparr>) (ticks (toy_world\<lparr>ticks := 1\<rparr>)) >
      expires_at toy_pairing"
    by (simp add: toy_world_def toy_pairing_def)
  note f = failed_unlock [OF a b c, where w' = "toy_world\<lparr>ticks := 1\<rparr>"
        and msg_in_a = "''=A9''" and msg = "[0x41, 0x39]"]
  have f1: "mark_user_entered_code toy_env ''100056'' ''wrong'' (toy_pending_manager, toy_world) =
      (False, toy_pending_manager,
       toy_world\<lparr>ticks := Suc (ticks toy_world),
                 vault_log := vault_log toy_world @ [Unlock ''wrong'']\<rparr>)"
    using f by blast
  have f2: "fst (exchange_pake_message toy_env ''100056'' ''=A9''
          (fst (snd (mark_user_entered_code toy_env ''100056'' ''wrong''
                       (toy_pending_manager, toy_world))),
           toy_world\<lparr>ticks := 1\<rparr>)) = Inr Status_waiting"
    using f n d toy_b64decode(1) by blast
  have f3: "fst (mark_user_entered_code toy_env ''100056'' ''wrong''
                   (toy_pending_manager, toy_world)) = False"
    "fst (snd (mark_user_entered_code toy_env ''100056'' ''wrong''
                   (toy_pending_manager, toy_world))) = toy_pending_manager"
    by (simp_all add: f1)
  show ?thesis
    using a b c d n toy_b64decode(1) f2 f3 by blast
qed

lemma randbelow_range:
  "0 < n \<Longrightarrow> fst (randbelow n w) < n"
  by (simp add: randbelow_def urandom_def)

text \<open>
  C6 (as the code has it). The pairing code is the decimal string of
  \<open>secrets.randbelow(900000) + 100000\<close>, a number from 100000 to 999999, and the new
  pairing state is stored under it whatever the table held before: there is no check
  for a collision and no second draw. How the random source is distributed is outside
  the model.
\<close>

theorem create_pairing_code:
  "\<exists>n. 100000 \<le> n \<and> n \<le> 999999 \<and>
     n = fst (randbelow 900000 w) + 100000 \<and>
     fst (create_pairing aid aname (m, w)) = (str_nat n, clock w (ticks w) + minutes 5) \<and>
     pending_pairings (fst (snd (create_pairing aid aname (m, w)))) =
       (pending_pairings m)(str_nat n \<mapsto>
          \<lparr>agent_id = aid, agent_name = aname, pairing_code = str_nat n,
           created_at = clock w (ticks w), expires_at = clock w (ticks w) + minutes 5,
           agent_pake_message = None, user_entered = False,
           bitwarden_session_token = None\<rparr>)"
proof -
  let ?n = "fst (randbelow 900000 w) + 100000"
  have "fst (randbelow 900000 w) < 900000"
    by (rule randbelow_range) simp
  then have "100000 \<le> ?n" and "?n \<le> 999999" by simp_all
  moreover have "fst (create_pairing aid aname (m, w)) =
      (str_nat ?n, clock w (ticks w) + minutes 5)"
    by (simp add: create_pairing_def randbelow_def urandom_def utcnow_def Let_def)
  moreover have "pending_pairings (fst (snd (create_pairing aid aname (m, w)))) =
       (pending_pairings m)(str_nat ?n \<mapsto>
          \<lparr>agent_id = aid, agent_name = aname, pairing_code = str_nat ?n,
           created_at = clock w (ticks w), expires_at = clock w (ticks w) + minutes 5,
           agent_pake_message = None, user_entered = False,
           bitwarden_session_token = None\<rparr>)"
    by (simp add: create_pairing_def randbelow_def urandom_def utcnow_def Let_def)
  ultimately show ?thesis by blast
qed

lemma toy_code: "str_nat (fst (randbelow 900000 toy_world) + 100000) = ''100056''"
  by (simp add: randbelow_def urandom_def toy_world_def str_nat_small str_nat_large
                digit_char_def)

theorem create_pairing_code_counterexample:
  "pending_pairings toy_unlocked_manager ''100056'' =
     Some (toy_pairing\<lparr>user_entered := True, bitwarden_session_token := Some ''T''\<rparr>) \<and>
   fst (fst (create_pairing ''b2'' ''B2'' (toy_unlocked_manager, toy_world))) = ''100056'' \<and>
   pending_pairings (fst (snd (create_pairing ''b2'' ''B2'' (toy_unlocked_manager, toy_world))))
       ''100056'' =
     Some \<lparr>agent_id = ''b2'', agent_name = ''B2'', pairing_code = ''100056'',
           created_at = 1000000000, expires_at = 1300000000, agent_pake_message = None,
           user_entered = False, bitwarden_session_token = None\<rparr>"
proof -
  have c: "fst (create_pairing ''b2'' ''B2'' (toy_unlocked_manager, toy_world)) =
      (''100056'', 1300000000)"
    using toy_code
    by (simp add: create_pairing_def randbelow_def urandom_def utcnow_def Let_def
                  toy_world_def minutes_def)
  have p: "pending_pairings (fst (snd (create_pairing ''b2'' ''B2''
        (toy_unlocked_manager, toy_world)))) ''100056'' =
     Some \<lparr>agent_id = ''b2'', agent_name = ''B2'', pairing_code = ''100056'',
           created_at = 1000000000, expires_at = 1300000000, agent_pake_message = None,
           user_entered = False, bitwarden_session_token = None\<rparr>"
    using toy_code
    by (simp add: create_pairing_def randbelow_def urandom_def utcnow_def Let_def
                  toy_world_def minutes_def)
  show ?thesis
    using c p toy_unlocked_pairing by simp
qed

theorem create_pairing_code_witness:
  "\<exists>n. 100000 \<le> n \<and> n \<le> 999999 \<and>
     fst (create_pairing ''a1'' ''A1'' (toy_manager, toy_world)) =
       (str_nat n, clock toy_world (ticks toy_world) + minutes 5)"
  using create_pairing_code [of toy_world "''a1''" "''A1''" toy_manager] by blast

end
